theory Spec2Isabelle
  imports Complex_Main "HOL-Library.Word"
begin

unbundle bit_operations_syntax

section \<open>Machine types\<close>

type_synonym u8 = "8 word"
type_synonym u32 = "32 word"

section \<open>CAN status and command messages (Thruster\_Kill\_Board.c, lines 63--79)\<close>

text \<open>
  The messages are \<open>static const char X[LEN] = "...";\<close> arrays. A C array of \<open>n\<close> chars
  initialised from a string literal holds the characters of the literal and is filled
  with zero bytes up to its length \<open>n\<close>; that is where the terminating null byte of the
  frames comes from.
\<close>

definition C_KILL_LEN :: u8 where
  "C_KILL_LEN = 5"

definition C_GO_LEN :: u8 where
  "C_GO_LEN = 3"

definition char_array :: "u8 \<Rightarrow> string \<Rightarrow> u8 list" where
  "char_array n lit =
     take (unat n) (map (\<lambda>c. word_of_nat (of_char c)) lit @ replicate (unat n) 0)"

definition Hard_Killed :: "u8 list" where
  "Hard_Killed = char_array C_KILL_LEN ''KRHA''"

definition Soft_Killed :: "u8 list" where
  "Soft_Killed = char_array C_KILL_LEN ''KRSA''"

definition Hard_UnKilled :: "u8 list" where
  "Hard_UnKilled = char_array C_KILL_LEN ''KRHU''"

definition Soft_UnKilled :: "u8 list" where
  "Soft_UnKilled = char_array C_KILL_LEN ''KRSU''"

definition Go_Asserted :: "u8 list" where
  "Go_Asserted = char_array C_GO_LEN ''GA''"

definition Go_UnAsserted :: "u8 list" where
  "Go_UnAsserted = char_array C_GO_LEN ''GU''"

definition Hard_Killed_CMD :: "u8 list" where
  "Hard_Killed_CMD = char_array C_KILL_LEN ''KCHA''"

definition Soft_Killed_CMD :: "u8 list" where
  "Soft_Killed_CMD = char_array C_KILL_LEN ''KCSA''"

definition Hard_UnKilled_CMD :: "u8 list" where
  "Hard_UnKilled_CMD = char_array C_KILL_LEN ''KCHU''"

definition Soft_UnKilled_CMD :: "u8 list" where
  "Soft_UnKilled_CMD = char_array C_KILL_LEN ''KCSU''"

section \<open>The hardware the firmware drives\<close>

text \<open>
  Enumerations of the vendor driver library that the sources pass around by name. Their
  numeric values play no role in the firmware's logic.
\<close>

datatype gpio_port = GPIO_PORTB_BASE
datatype pad_strength = GPIO_STRENGTH_2MA
datatype pad_type = GPIO_PIN_TYPE_STD_WPU | GPIO_PIN_TYPE_STD_WPD
datatype int_edge = GPIO_RISING_EDGE | GPIO_FALLING_EDGE
datatype msg_obj_type = MSG_OBJ_TYPE_TX

text \<open>
  \<open>tCANMsgObject\<close> as \<open>MIL_CANSimpleTX\<close> fills it. The function never assigns
  \<open>ui32MsgIDMask\<close>; \<open>None\<close> stands for the unassigned field. \<open>pui8MsgData\<close> points to
  the caller's array, modelled by the array's contents.
\<close>

record tCANMsgObject =
  ui32MsgID :: u32
  ui32MsgIDMask :: "u32 option"
  ui32Flags :: u32
  ui32MsgLen :: u32
  pui8MsgData :: "u8 list"

text \<open>
  Every call into the hardware layer, in the order the firmware issues it. The last four
  constructors are driver operations that switch PWM output off and attach a GPIO
  interrupt; they are listed so that their absence from a sequence can be stated.
\<close>

datatype hw_call =
    Call_PWMPulseWidthSet u32 u32 u32
  | Call_POWER_THRUSTERS
  | Call_KILL_THRUSTERS
  | Call_POWER_MAIN
  | Call_KILL_MAIN
  | Call_SEC_1_DELAY
  | Call_CANMessageSet u32 u32 tCANMsgObject msg_obj_type
  | Call_GPIOPinTypeGPIOInput gpio_port u8
  | Call_GPIOPadConfigSet gpio_port u8 pad_strength pad_type
  | Call_PWMOutputState bool
  | Call_GPIOIntTypeSet gpio_port u8 int_edge
  | Call_GPIOIntRegister gpio_port
  | Call_GPIOIntEnable gpio_port u8

record hw =
  main_power :: bool
  thruster_power :: bool
  pwm_out_en :: bool
  portb_in :: u8
  calls :: "hw_call list"

definition issue :: "hw_call \<Rightarrow> hw \<Rightarrow> hw" where
  "issue c s = s\<lparr>calls := calls s @ [c]\<rparr>"

text \<open>Statements executed one after the other.\<close>

definition seq :: "(hw \<Rightarrow> hw) list \<Rightarrow> hw \<Rightarrow> hw" where
  "seq stmts s = fold (\<lambda>stmt. stmt) stmts s"

text \<open>The calls a piece of firmware adds to those already made before it ran.\<close>

definition issued :: "hw \<Rightarrow> hw \<Rightarrow> hw_call list" where
  "issued s s' = drop (length (calls s)) (calls s')"

subsection \<open>Constants of the board header\<close>

text \<open>
  Modelled from the spec: the macros of Thruster\_Kill\_Board.h and MIL\_BR\_ESC.h, which
  are not among the sources. The pin, generator, identifier, index and start-byte
  constants are parameters of the model. \<open>PWM_STOP_PER\<close> is the neutral/stop pulse width
  of a generator; \<open>PWM_FULL_REV_PER\<close> and \<open>PWM_FULL_FWD_PER\<close> are the spec's "full
  reverse" and "full forward" pulse widths.
\<close>

record tkb_board =
  TKB_PWM_BASE :: u32
  TKB_FH_PWM_GEN :: u32
  TKB_FV_PWM_GEN :: u32
  TKB_BH_PWM_GEN :: u32
  TKB_BV_PWM_GEN :: u32
  TKB_PWM_FHL_PIN :: u32
  TKB_PWM_FHR_PIN :: u32
  TKB_PWM_FVL_PIN :: u32
  TKB_PWM_FVR_PIN :: u32
  TKB_PWM_BHL_PIN :: u32
  TKB_PWM_BHR_PIN :: u32
  TKB_PWM_BVL_PIN :: u32
  TKB_PWM_BVR_PIN :: u32
  PWM_STOP_PER :: "u32 \<Rightarrow> u32 \<Rightarrow> u32"
  PWM_FULL_REV_PER :: "u32 \<Rightarrow> u32 \<Rightarrow> u32"
  PWM_FULL_FWD_PER :: "u32 \<Rightarrow> u32 \<Rightarrow> u32"
  TKB_CANID :: u32
  TKB_CAN_BASE :: u32
  HALL_SOFTKILL_PIN :: u8
  HALL_GO_PIN :: u8
  HALL_ON_OFF_PIN :: u8
  HALL_ACT_LO :: u8
  HALL_ACT_HI :: u8
  MSG_TYPE_IDX :: nat
  KILL_START_BYTE :: u8
  THRUST_START_BYTE :: u8

text \<open>
  Modelled from the spec: the macros \<open>HALL_HI\<close> and \<open>HALL_LO\<close> of the absent header, with
  the values the comment above the check functions documents (0xFF for a high input,
  0x00 for a low one).
\<close>

definition HALL_HI :: u8 where
  "HALL_HI = 0xFF"

definition HALL_LO :: u8 where
  "HALL_LO = 0x00"

text \<open>
  Modelled from the spec: the power, delay and PWM-output macros of the absent header.
  Each is one call into the hardware; the power lines and the PWM output enable are
  kept as flags of the hardware state.
\<close>

definition POWER_MAIN :: "hw \<Rightarrow> hw" where
  "POWER_MAIN s = issue Call_POWER_MAIN (s\<lparr>main_power := True\<rparr>)"

definition KILL_MAIN :: "hw \<Rightarrow> hw" where
  "KILL_MAIN s = issue Call_KILL_MAIN (s\<lparr>main_power := False\<rparr>)"

definition POWER_THRUSTERS :: "hw \<Rightarrow> hw" where
  "POWER_THRUSTERS s = issue Call_POWER_THRUSTERS (s\<lparr>thruster_power := True\<rparr>)"

definition KILL_THRUSTERS :: "hw \<Rightarrow> hw" where
  "KILL_THRUSTERS s = issue Call_KILL_THRUSTERS (s\<lparr>thruster_power := False\<rparr>)"

definition SEC_1_DELAY :: "hw \<Rightarrow> hw" where
  "SEC_1_DELAY s = issue Call_SEC_1_DELAY s"

definition TKB_PWM_OUT_EN :: "hw \<Rightarrow> hw" where
  "TKB_PWM_OUT_EN s = issue (Call_PWMOutputState True) (s\<lparr>pwm_out_en := True\<rparr>)"

subsection \<open>Driver library calls\<close>

definition PWMPulseWidthSet :: "u32 \<Rightarrow> u32 \<Rightarrow> u32 \<Rightarrow> hw \<Rightarrow> hw" where
  "PWMPulseWidthSet base pwm_out width s = issue (Call_PWMPulseWidthSet base pwm_out width) s"

definition CANMessageSet :: "u32 \<Rightarrow> u32 \<Rightarrow> tCANMsgObject \<Rightarrow> msg_obj_type \<Rightarrow> hw \<Rightarrow> hw" where
  "CANMessageSet base obj_id msg ty s = issue (Call_CANMessageSet base obj_id msg ty) s"

definition GPIOPinTypeGPIOInput :: "gpio_port \<Rightarrow> u8 \<Rightarrow> hw \<Rightarrow> hw" where
  "GPIOPinTypeGPIOInput port pins s = issue (Call_GPIOPinTypeGPIOInput port pins) s"

definition GPIOPadConfigSet :: "gpio_port \<Rightarrow> u8 \<Rightarrow> pad_strength \<Rightarrow> pad_type \<Rightarrow> hw \<Rightarrow> hw" where
  "GPIOPadConfigSet port pins strength ty s = issue (Call_GPIOPadConfigSet port pins strength ty) s"

text \<open>
  \<open>GPIOPinRead\<close> returns the levels of the requested pins of the port, one bit per pin,
  as a 32-bit value; the bits of the other pins are 0.
\<close>

definition GPIOPinRead :: "hw \<Rightarrow> gpio_port \<Rightarrow> u8 \<Rightarrow> u32" where
  "GPIOPinRead s port pins = ucast (portb_in s AND pins)"

section \<open>MIL\_CAN.c\<close>

definition MIL_CANSimpleTX :: "u32 \<Rightarrow> u8 list \<Rightarrow> u8 \<Rightarrow> u32 \<Rightarrow> hw \<Rightarrow> hw" where
  "MIL_CANSimpleTX canid pMsg MsgLen base s =
     (let SimpleTXObj = \<lparr>ui32MsgID = canid, ui32MsgIDMask = None, ui32Flags = 0,
                          ui32MsgLen = ucast MsgLen, pui8MsgData = pMsg\<rparr>
      in CANMessageSet base 0 SimpleTXObj MSG_OBJ_TYPE_TX s)"

section \<open>Thruster\_Kill\_Board.c: kill and unkill sequences\<close>

text \<open>
  Each function is the sequence of its statements. The delay loops
  \<open>for(uint8_t i = 0; i < n; i++){SEC_1_DELAY();}\<close> run their body \<open>n\<close> times and are
  written \<open>SEC_1_DELAY ^^ n\<close>.
\<close>

definition TKB_Init_ESC :: "tkb_board \<Rightarrow> hw \<Rightarrow> hw" where
  "TKB_Init_ESC b =
     seq [POWER_THRUSTERS,
          SEC_1_DELAY ^^ 2,
          PWMPulseWidthSet (TKB_PWM_BASE b) (TKB_PWM_FHL_PIN b)
            (PWM_STOP_PER b (TKB_PWM_BASE b) (TKB_FH_PWM_GEN b)),
          PWMPulseWidthSet (TKB_PWM_BASE b) (TKB_PWM_FHR_PIN b)
            (PWM_STOP_PER b (TKB_PWM_BASE b) (TKB_FH_PWM_GEN b)),
          PWMPulseWidthSet (TKB_PWM_BASE b) (TKB_PWM_FVL_PIN b)
            (PWM_STOP_PER b (TKB_PWM_BASE b) (TKB_FV_PWM_GEN b)),
          PWMPulseWidthSet (TKB_PWM_BASE b) (TKB_PWM_FVR_PIN b)
            (PWM_STOP_PER b (TKB_PWM_BASE b) (TKB_FV_PWM_GEN b)),
          PWMPulseWidthSet (TKB_PWM_BASE b) (TKB_PWM_BHL_PIN b)
            (PWM_STOP_PER b (TKB_PWM_BASE b) (TKB_BH_PWM_GEN b)),
          PWMPulseWidthSet (TKB_PWM_BASE b) (TKB_PWM_BHR_PIN b)
            (PWM_STOP_PER b (TKB_PWM_BASE b) (TKB_BH_PWM_GEN b)),
          PWMPulseWidthSet (TKB_PWM_BASE b) (TKB_PWM_BVL_PIN b)
            (PWM_STOP_PER b (TKB_PWM_BASE b) (TKB_BV_PWM_GEN b)),
          PWMPulseWidthSet (TKB_PWM_BASE b) (TKB_PWM_BVR_PIN b)
            (PWM_STOP_PER b (TKB_PWM_BASE b) (TKB_BV_PWM_GEN b)),
          TKB_PWM_OUT_EN]"

definition TKB_StopAllThrust :: "tkb_board \<Rightarrow> hw \<Rightarrow> hw" where
  "TKB_StopAllThrust b =
     seq [PWMPulseWidthSet (TKB_PWM_BASE b) (TKB_PWM_FHL_PIN b)
            (PWM_STOP_PER b (TKB_PWM_BASE b) (TKB_FH_PWM_GEN b)),
          PWMPulseWidthSet (TKB_PWM_BASE b) (TKB_PWM_FHR_PIN b)
            (PWM_STOP_PER b (TKB_PWM_BASE b) (TKB_FH_PWM_GEN b)),
          PWMPulseWidthSet (TKB_PWM_BASE b) (TKB_PWM_FVL_PIN b)
            (PWM_STOP_PER b (TKB_PWM_BASE b) (TKB_FV_PWM_GEN b)),
          PWMPulseWidthSet (TKB_PWM_BASE b) (TKB_PWM_FVR_PIN b)
            (PWM_STOP_PER b (TKB_PWM_BASE b) (TKB_FV_PWM_GEN b)),
          PWMPulseWidthSet (TKB_PWM_BASE b) (TKB_PWM_BHL_PIN b)
            (PWM_STOP_PER b (TKB_PWM_BASE b) (TKB_BH_PWM_GEN b)),
          PWMPulseWidthSet (TKB_PWM_BASE b) (TKB_PWM_BHR_PIN b)
            (PWM_STOP_PER b (TKB_PWM_BASE b) (TKB_BH_PWM_GEN b)),
          PWMPulseWidthSet (TKB_PWM_BASE b) (TKB_PWM_BVL_PIN b)
            (PWM_STOP_PER b (TKB_PWM_BASE b) (TKB_BV_PWM_GEN b)),
          PWMPulseWidthSet (TKB_PWM_BASE b) (TKB_PWM_BVR_PIN b)
            (PWM_STOP_PER b (TKB_PWM_BASE b) (TKB_BV_PWM_GEN b))]"

definition TKB_IdleThrusters :: "tkb_board \<Rightarrow> hw \<Rightarrow> hw" where
  "TKB_IdleThrusters b = seq [TKB_StopAllThrust b]"

definition TKB_SoftKill :: "tkb_board \<Rightarrow> hw \<Rightarrow> hw" where
  "TKB_SoftKill b =
     seq [TKB_IdleThrusters b,
          KILL_THRUSTERS,
          MIL_CANSimpleTX (TKB_CANID b) Soft_Killed C_KILL_LEN (TKB_CAN_BASE b)]"

definition TKB_HardKill :: "tkb_board \<Rightarrow> hw \<Rightarrow> hw" where
  "TKB_HardKill b =
     seq [TKB_SoftKill b,
          MIL_CANSimpleTX (TKB_CANID b) Hard_Killed C_KILL_LEN (TKB_CAN_BASE b),
          SEC_1_DELAY ^^ 5,
          KILL_MAIN]"

definition TKB_UnKill :: "tkb_board \<Rightarrow> hw \<Rightarrow> hw" where
  "TKB_UnKill b =
     seq [POWER_MAIN,
          POWER_THRUSTERS,
          TKB_Init_ESC b]"

section \<open>Thruster\_Kill\_Board.c: thrust mapping\<close>

text \<open>
  \<open>tkb_thrust_data_t\<close>: the PWM output and generator of one thruster and its commanded
  speed. The speed is a float in the firmware; the model takes it as a real number.
\<close>

record tkb_thrust_data_t =
  pwm_out :: u32
  pwm_gen :: u32
  speed_float :: real

text \<open>
  Modelled from the spec: \<open>MIL_BR_linear_per\<close> of MIL\_BR\_ESC.c, which is not among the
  sources. The speed is clamped to \<open>[-1, 1]\<close>; the pulse width, in timer ticks, is
  interpolated linearly between the full-reverse, the neutral/stop and the full-forward
  width of the generator, and cut to a whole number of ticks.
\<close>

definition clamp_speed :: "real \<Rightarrow> real" where
  "clamp_speed x = max (- 1) (min 1 x)"

definition linear_ticks :: "nat \<Rightarrow> nat \<Rightarrow> nat \<Rightarrow> real \<Rightarrow> nat" where
  "linear_ticks full_rev stop full_fwd x =
     (if 0 \<le> x then nat \<lfloor>real stop + x * (real full_fwd - real stop)\<rfloor>
      else nat \<lfloor>real stop + x * (real stop - real full_rev)\<rfloor>)"

definition MIL_BR_linear_per :: "tkb_board \<Rightarrow> real \<Rightarrow> u32 \<Rightarrow> u32 \<Rightarrow> u32" where
  "MIL_BR_linear_per b speed base gen =
     word_of_nat (linear_ticks (unat (PWM_FULL_REV_PER b base gen))
                               (unat (PWM_STOP_PER b base gen))
                               (unat (PWM_FULL_FWD_PER b base gen))
                               (clamp_speed speed))"

definition TKB_PWM_SetSpeed :: "tkb_board \<Rightarrow> tkb_thrust_data_t \<Rightarrow> hw \<Rightarrow> hw" where
  "TKB_PWM_SetSpeed b thruster =
     PWMPulseWidthSet (TKB_PWM_BASE b) (pwm_out thruster)
       (MIL_BR_linear_per b (speed_float thruster) (TKB_PWM_BASE b) (pwm_gen thruster))"

section \<open>Thruster\_Kill\_Board.c: hall sensors\<close>

text \<open>
  The \<open>switch\<close> of \<open>Init_HALL_IO\<close>: the values it gives the locals \<open>pull\<close> and \<open>edge\<close>.
\<close>

definition Init_HALL_IO_switch :: "tkb_board \<Rightarrow> u8 \<Rightarrow> pad_type \<times> int_edge" where
  "Init_HALL_IO_switch b activation_lvl =
     (if activation_lvl = HALL_ACT_LO b then (GPIO_PIN_TYPE_STD_WPU, GPIO_RISING_EDGE)
      else if activation_lvl = HALL_ACT_HI b then (GPIO_PIN_TYPE_STD_WPD, GPIO_FALLING_EDGE)
      else (GPIO_PIN_TYPE_STD_WPD, GPIO_FALLING_EDGE))"

text \<open>The body of \<open>Init_HALL_IO\<close>; the local \<open>edge\<close> is assigned and not read again.\<close>

definition Init_HALL_IO :: "tkb_board \<Rightarrow> u8 \<Rightarrow> hw \<Rightarrow> hw" where
  "Init_HALL_IO b activation_lvl =
     (let (pull, edge) = Init_HALL_IO_switch b activation_lvl
      in seq [GPIOPinTypeGPIOInput GPIO_PORTB_BASE (HALL_SOFTKILL_PIN b),
              GPIOPinTypeGPIOInput GPIO_PORTB_BASE (HALL_GO_PIN b),
              GPIOPinTypeGPIOInput GPIO_PORTB_BASE (HALL_ON_OFF_PIN b),
              GPIOPadConfigSet GPIO_PORTB_BASE (HALL_SOFTKILL_PIN b) GPIO_STRENGTH_2MA pull,
              GPIOPadConfigSet GPIO_PORTB_BASE (HALL_GO_PIN b) GPIO_STRENGTH_2MA pull,
              GPIOPadConfigSet GPIO_PORTB_BASE (HALL_ON_OFF_PIN b) GPIO_STRENGTH_2MA pull])"

definition HALL_CheckGo :: "tkb_board \<Rightarrow> hw \<Rightarrow> u8" where
  "HALL_CheckGo b s =
     (if GPIOPinRead s GPIO_PORTB_BASE (HALL_GO_PIN b) AND ucast (HALL_GO_PIN b) \<noteq> 0
      then HALL_HI else HALL_LO)"

definition HALL_CheckSoftKill :: "tkb_board \<Rightarrow> hw \<Rightarrow> u8" where
  "HALL_CheckSoftKill b s =
     (if GPIOPinRead s GPIO_PORTB_BASE (HALL_SOFTKILL_PIN b) AND ucast (HALL_SOFTKILL_PIN b) \<noteq> 0
      then HALL_HI else HALL_LO)"

definition HALL_Check_ON_OFF :: "tkb_board \<Rightarrow> hw \<Rightarrow> u8" where
  "HALL_Check_ON_OFF b s =
     (if GPIOPinRead s GPIO_PORTB_BASE (HALL_ON_OFF_PIN b) AND ucast (HALL_ON_OFF_PIN b) \<noteq> 0
      then HALL_HI else HALL_LO)"

section \<open>Thruster\_Kill\_Board.c: inbound message classification\<close>

text \<open>
  \<open>pMsg\<close> points to the received bytes, modelled by the byte list; the firmware reads
  index \<open>MSG_TYPE_IDX\<close> without a bounds check, so the theorems about these functions
  assume the index lies inside the message.
\<close>

definition TKB_Check_KillMsg :: "tkb_board \<Rightarrow> u8 list \<Rightarrow> u8" where
  "TKB_Check_KillMsg b pMsg =
     (if pMsg ! MSG_TYPE_IDX b = KILL_START_BYTE b then 0x01 else 0x00)"

definition TKB_Check_ThrustMsg :: "tkb_board \<Rightarrow> u8 list \<Rightarrow> u8" where
  "TKB_Check_ThrustMsg b pMsg =
     (if pMsg ! MSG_TYPE_IDX b = THRUST_START_BYTE b then 0x01 else 0x00)"

section \<open>Notions of the specification\<close>

text \<open>
  The kill state of the specification. The sources keep no variable for it; it is read
  off the power lines and the PWM output enable: without main power the board is hard
  killed, with everything on it is running, and otherwise it is soft killed.
\<close>

datatype kill_state = Running | SoftKilled | HardKilled

definition kill_state_of :: "hw \<Rightarrow> kill_state" where
  "kill_state_of s =
     (if \<not> main_power s then HardKilled
      else if thruster_power s \<and> pwm_out_en s then Running
      else SoftKilled)"

text \<open>
  The specification's reading of a hall sensor: the magnet is present when the raw pin
  level is the active level of the configured polarity.
\<close>

definition magnet_present :: "tkb_board \<Rightarrow> u8 \<Rightarrow> bool \<Rightarrow> bool" where
  "magnet_present b activation_lvl raw_high =
     (if activation_lvl = HALL_ACT_LO b then \<not> raw_high else raw_high)"

text \<open>Selectors on the call sequence.\<close>

fun can_obj_ids :: "hw_call list \<Rightarrow> u32 list" where
  "can_obj_ids [] = []"
| "can_obj_ids (Call_CANMessageSet base obj_id msg ty # cs) = obj_id # can_obj_ids cs"
| "can_obj_ids (c # cs) = can_obj_ids cs"

fun can_payloads :: "hw_call list \<Rightarrow> u8 list list" where
  "can_payloads [] = []"
| "can_payloads (Call_CANMessageSet base obj_id msg ty # cs) =
     take (unat (ui32MsgLen msg)) (pui8MsgData msg) # can_payloads cs"
| "can_payloads (c # cs) = can_payloads cs"

fun is_int_call :: "hw_call \<Rightarrow> bool" where
  "is_int_call (Call_GPIOIntTypeSet port pins edge) = True"
| "is_int_call (Call_GPIOIntRegister port) = True"
| "is_int_call (Call_GPIOIntEnable port pins) = True"
| "is_int_call c = False"

text \<open>
  Names for the calls the kill sequences are made of: the stop pulse of one thruster
  output, the eight stop pulses of \<open>TKB_StopAllThrust\<close> in the order of the source, and
  the call by which \<open>MIL_CANSimpleTX\<close> hands a frame to the CAN controller.
\<close>

definition stop_pulse :: "tkb_board \<Rightarrow> u32 \<Rightarrow> u32 \<Rightarrow> hw_call" where
  "stop_pulse b pin gen =
     Call_PWMPulseWidthSet (TKB_PWM_BASE b) pin (PWM_STOP_PER b (TKB_PWM_BASE b) gen)"

definition stop_all_calls :: "tkb_board \<Rightarrow> hw_call list" where
  "stop_all_calls b =
     [stop_pulse b (TKB_PWM_FHL_PIN b) (TKB_FH_PWM_GEN b),
      stop_pulse b (TKB_PWM_FHR_PIN b) (TKB_FH_PWM_GEN b),
      stop_pulse b (TKB_PWM_FVL_PIN b) (TKB_FV_PWM_GEN b),
      stop_pulse b (TKB_PWM_FVR_PIN b) (TKB_FV_PWM_GEN b),
      stop_pulse b (TKB_PWM_BHL_PIN b) (TKB_BH_PWM_GEN b),
      stop_pulse b (TKB_PWM_BHR_PIN b) (TKB_BH_PWM_GEN b),
      stop_pulse b (TKB_PWM_BVL_PIN b) (TKB_BV_PWM_GEN b),
      stop_pulse b (TKB_PWM_BVR_PIN b) (TKB_BV_PWM_GEN b)]"

definition tx_frame :: "u32 \<Rightarrow> u32 \<Rightarrow> u8 list \<Rightarrow> u8 \<Rightarrow> hw_call" where
  "tx_frame base canid payload len =
     Call_CANMessageSet base 0
       \<lparr>ui32MsgID = canid, ui32MsgIDMask = None, ui32Flags = 0,
        ui32MsgLen = ucast len, pui8MsgData = payload\<rparr> MSG_OBJ_TYPE_TX"

section \<open>A sample board and the state after power-up\<close>

text \<open>
  Concrete values for evaluating the firmware. The PWM outputs and generators follow the
  pin map in the header comment of Thruster\_Kill\_Board.c (FH on generator 1 with outputs
  3 and 2, FV on generator 2 with outputs 4 and 5, BH on generator 0 with outputs 0 and 1,
  BV on generator 3 with outputs 7 and 6); the pulse widths are those of a 2000 us period
  at 1 tick per microsecond. The remaining values are arbitrary.
\<close>

definition sample_board :: tkb_board where
  "sample_board =
     \<lparr>TKB_PWM_BASE = 0x40028000,
      TKB_FH_PWM_GEN = 0x80, TKB_FV_PWM_GEN = 0xC0,
      TKB_BH_PWM_GEN = 0x40, TKB_BV_PWM_GEN = 0x100,
      TKB_PWM_FHL_PIN = 0x43, TKB_PWM_FHR_PIN = 0x42,
      TKB_PWM_FVL_PIN = 0x44, TKB_PWM_FVR_PIN = 0x45,
      TKB_PWM_BHL_PIN = 0x40, TKB_PWM_BHR_PIN = 0x41,
      TKB_PWM_BVL_PIN = 0x47, TKB_PWM_BVR_PIN = 0x46,
      PWM_STOP_PER = (\<lambda>base gen. 1500),
      PWM_FULL_REV_PER = (\<lambda>base gen. 1100),
      PWM_FULL_FWD_PER = (\<lambda>base gen. 1900),
      TKB_CANID = 0x21, TKB_CAN_BASE = 0x40040000,
      HALL_SOFTKILL_PIN = 0x01, HALL_GO_PIN = 0x02, HALL_ON_OFF_PIN = 0x04,
      HALL_ACT_LO = 0, HALL_ACT_HI = 1,
      MSG_TYPE_IDX = 0, KILL_START_BYTE = 0x4B, THRUST_START_BYTE = 0x54\<rparr>"

definition hw_boot :: hw where
  "hw_boot = \<lparr>main_power = False, thruster_power = False, pwm_out_en = False,
              portb_in = 0, calls = []\<rparr>"

section \<open>Status frame payloads\<close>

lemma char_array_kill:
  "char_array C_KILL_LEN [a, b, c, d] =
     [word_of_nat (of_char a), word_of_nat (of_char b),
      word_of_nat (of_char c), word_of_nat (of_char d), 0]"
  by (simp add: char_array_def C_KILL_LEN_def)

lemma char_array_go:
  "char_array C_GO_LEN [a, b] = [word_of_nat (of_char a), word_of_nat (of_char b), 0]"
  by (simp add: char_array_def C_GO_LEN_def)

lemma kill_frame_take:
  "take (unat (ucast C_KILL_LEN :: u32)) Soft_Killed = Soft_Killed"
  "take (unat (ucast C_KILL_LEN :: u32)) Hard_Killed = Hard_Killed"
  unfolding Soft_Killed_def Hard_Killed_def char_array_kill
  by (simp_all add: C_KILL_LEN_def)

lemma unat_ucast_len: "unat (ucast (w :: u8) :: u32) = unat w"
proof -
  have "unat w < 2 ^ 8"
    using unsigned_less [of w] by simp
  then have "unat w < 2 ^ 32"
    by simp
  then show ?thesis
    by (simp add: unsigned_ucast_eq take_bit_nat_eq_self)
qed

text \<open>
  Claim C5. The six status payloads are the byte sequences
  \<open>KRHA\0\<close>, \<open>KRSA\0\<close>, \<open>KRHU\0\<close>, \<open>KRSU\0\<close>, \<open>GA\0\<close> and \<open>GU\0\<close>:
  the four kill frames are 5 bytes long (the length \<open>C_KILL_LEN\<close> they are sent with),
  the two go frames 3 bytes (\<open>C_GO_LEN\<close>), and each ends with a null byte.
\<close>

theorem status_payload_bytes:
  "Hard_Killed = [0x4B, 0x52, 0x48, 0x41, 0x00] \<and>
   Soft_Killed = [0x4B, 0x52, 0x53, 0x41, 0x00] \<and>
   Hard_UnKilled = [0x4B, 0x52, 0x48, 0x55, 0x00] \<and>
   Soft_UnKilled = [0x4B, 0x52, 0x53, 0x55, 0x00] \<and>
   Go_Asserted = [0x47, 0x41, 0x00] \<and>
   Go_UnAsserted = [0x47, 0x55, 0x00] \<and>
   map length [Hard_Killed, Soft_Killed, Hard_UnKilled, Soft_UnKilled] = [5, 5, 5, 5] \<and>
   map length [Go_Asserted, Go_UnAsserted] = [3, 3] \<and>
   unat C_KILL_LEN = 5 \<and> unat C_GO_LEN = 3 \<and>
   map last [Hard_Killed, Soft_Killed, Hard_UnKilled, Soft_UnKilled,
             Go_Asserted, Go_UnAsserted] = [0, 0, 0, 0, 0, 0]"
  unfolding Hard_Killed_def Soft_Killed_def Hard_UnKilled_def Soft_UnKilled_def
    Go_Asserted_def Go_UnAsserted_def char_array_kill char_array_go
  by (simp add: C_KILL_LEN_def C_GO_LEN_def)

section \<open>Facts about the call sequences\<close>

lemma calls_issue: "calls (issue c s) = calls s @ [c]"
  and main_power_issue: "main_power (issue c s) = main_power s"
  and thruster_power_issue: "thruster_power (issue c s) = thruster_power s"
  and pwm_out_en_issue: "pwm_out_en (issue c s) = pwm_out_en s"
  and portb_in_issue: "portb_in (issue c s) = portb_in s"
  by (simp_all add: issue_def)

lemmas issue_simps =
  calls_issue main_power_issue thruster_power_issue pwm_out_en_issue portb_in_issue

lemma seq_Nil: "seq [] s = s"
  and seq_Cons: "seq (f # fs) s = seq fs (f s)"
  by (simp_all add: seq_def)

lemma issued_append: "calls s' = calls s @ cs \<Longrightarrow> issued s s' = cs"
  by (simp add: issued_def)

lemma delay_flags:
  "main_power ((SEC_1_DELAY ^^ n) s) = main_power s"
  "thruster_power ((SEC_1_DELAY ^^ n) s) = thruster_power s"
  "pwm_out_en ((SEC_1_DELAY ^^ n) s) = pwm_out_en s"
  "portb_in ((SEC_1_DELAY ^^ n) s) = portb_in s"
  by (induction n) (simp_all add: SEC_1_DELAY_def issue_simps)

lemma TKB_StopAllThrust_calls:
  "calls (TKB_StopAllThrust b s) = calls s @ stop_all_calls b"
  by (simp add: TKB_StopAllThrust_def stop_all_calls_def stop_pulse_def seq_Nil seq_Cons
      PWMPulseWidthSet_def issue_simps)

lemma TKB_StopAllThrust_flags:
  "main_power (TKB_StopAllThrust b s) = main_power s"
  "thruster_power (TKB_StopAllThrust b s) = thruster_power s"
  "pwm_out_en (TKB_StopAllThrust b s) = pwm_out_en s"
  "portb_in (TKB_StopAllThrust b s) = portb_in s"
  by (simp_all add: TKB_StopAllThrust_def seq_Nil seq_Cons PWMPulseWidthSet_def issue_simps)

lemma MIL_CANSimpleTX_calls:
  "calls (MIL_CANSimpleTX canid pMsg MsgLen base s) = calls s @ [tx_frame base canid pMsg MsgLen]"
  by (simp add: MIL_CANSimpleTX_def CANMessageSet_def tx_frame_def calls_issue)

lemma MIL_CANSimpleTX_flags:
  "main_power (MIL_CANSimpleTX canid pMsg MsgLen base s) = main_power s"
  "thruster_power (MIL_CANSimpleTX canid pMsg MsgLen base s) = thruster_power s"
  "pwm_out_en (MIL_CANSimpleTX canid pMsg MsgLen base s) = pwm_out_en s"
  "portb_in (MIL_CANSimpleTX canid pMsg MsgLen base s) = portb_in s"
  by (simp_all add: MIL_CANSimpleTX_def CANMessageSet_def issue_simps)

lemma TKB_SoftKill_calls:
  "calls (TKB_SoftKill b s) = calls s @ stop_all_calls b @
     [Call_KILL_THRUSTERS, tx_frame (TKB_CAN_BASE b) (TKB_CANID b) Soft_Killed C_KILL_LEN]"
  by (simp add: TKB_SoftKill_def TKB_IdleThrusters_def seq_Nil seq_Cons KILL_THRUSTERS_def
      MIL_CANSimpleTX_calls TKB_StopAllThrust_calls issue_simps)

lemma TKB_SoftKill_flags:
  "main_power (TKB_SoftKill b s) = main_power s"
  "thruster_power (TKB_SoftKill b s) = False"
  "pwm_out_en (TKB_SoftKill b s) = pwm_out_en s"
  "portb_in (TKB_SoftKill b s) = portb_in s"
  by (simp_all add: TKB_SoftKill_def TKB_IdleThrusters_def seq_Nil seq_Cons KILL_THRUSTERS_def
      MIL_CANSimpleTX_flags TKB_StopAllThrust_flags issue_simps)

lemma TKB_HardKill_calls:
  "calls (TKB_HardKill b s) = calls s @ stop_all_calls b @
     [Call_KILL_THRUSTERS,
      tx_frame (TKB_CAN_BASE b) (TKB_CANID b) Soft_Killed C_KILL_LEN,
      tx_frame (TKB_CAN_BASE b) (TKB_CANID b) Hard_Killed C_KILL_LEN,
      Call_SEC_1_DELAY, Call_SEC_1_DELAY, Call_SEC_1_DELAY, Call_SEC_1_DELAY, Call_SEC_1_DELAY,
      Call_KILL_MAIN]"
  by (simp add: TKB_HardKill_def seq_Nil seq_Cons KILL_MAIN_def SEC_1_DELAY_def
      MIL_CANSimpleTX_calls TKB_SoftKill_calls issue_simps numeral_eq_Suc)

lemma TKB_HardKill_flags:
  "main_power (TKB_HardKill b s) = False"
  "thruster_power (TKB_HardKill b s) = False"
  "pwm_out_en (TKB_HardKill b s) = pwm_out_en s"
  "portb_in (TKB_HardKill b s) = portb_in s"
  by (simp_all add: TKB_HardKill_def seq_Nil seq_Cons KILL_MAIN_def delay_flags
      MIL_CANSimpleTX_flags TKB_SoftKill_flags issue_simps)

lemma TKB_Init_ESC_calls:
  "calls (TKB_Init_ESC b s) = calls s @
     [Call_POWER_THRUSTERS, Call_SEC_1_DELAY, Call_SEC_1_DELAY] @ stop_all_calls b @
     [Call_PWMOutputState True]"
  by (simp add: TKB_Init_ESC_def stop_all_calls_def stop_pulse_def seq_Nil seq_Cons
      PWMPulseWidthSet_def POWER_THRUSTERS_def TKB_PWM_OUT_EN_def SEC_1_DELAY_def issue_simps
      numeral_eq_Suc)

lemma TKB_Init_ESC_flags:
  "main_power (TKB_Init_ESC b s) = main_power s"
  "thruster_power (TKB_Init_ESC b s) = True"
  "pwm_out_en (TKB_Init_ESC b s) = True"
  "portb_in (TKB_Init_ESC b s) = portb_in s"
  by (simp_all add: TKB_Init_ESC_def seq_Nil seq_Cons
      PWMPulseWidthSet_def POWER_THRUSTERS_def TKB_PWM_OUT_EN_def delay_flags issue_simps)

lemma TKB_UnKill_calls:
  "calls (TKB_UnKill b s) = calls s @
     [Call_POWER_MAIN, Call_POWER_THRUSTERS,
      Call_POWER_THRUSTERS, Call_SEC_1_DELAY, Call_SEC_1_DELAY] @ stop_all_calls b @
     [Call_PWMOutputState True]"
  by (simp add: TKB_UnKill_def seq_Nil seq_Cons POWER_MAIN_def POWER_THRUSTERS_def
      TKB_Init_ESC_calls issue_simps)

lemma TKB_UnKill_flags:
  "main_power (TKB_UnKill b s) = True"
  "thruster_power (TKB_UnKill b s) = True"
  "pwm_out_en (TKB_UnKill b s) = True"
  "portb_in (TKB_UnKill b s) = portb_in s"
  by (simp_all add: TKB_UnKill_def seq_Nil seq_Cons POWER_MAIN_def POWER_THRUSTERS_def
      TKB_Init_ESC_flags issue_simps)

lemma stop_all_no_disable:
  "filter (\<lambda>c. c \<noteq> Call_PWMOutputState False) (stop_all_calls b) = stop_all_calls b"
  by (simp add: stop_all_calls_def stop_pulse_def)

lemma hall_pin_test:
  fixes x p :: u8
  shows "((ucast (x AND p) :: u32) AND ucast p \<noteq> 0) = (x AND p \<noteq> 0)"
proof -
  have "(ucast (x AND p) :: u32) AND ucast p = ucast ((x AND p) AND p)"
    by (simp add: unsigned_and_eq)
  also have "(x AND p) AND p = x AND p"
    by (simp add: and.assoc)
  finally have "(ucast (x AND p) :: u32) AND ucast p = ucast (x AND p)" .
  moreover have "((ucast (x AND p) :: u32) = 0) = (x AND p = 0)"
  proof
    assume "(ucast (x AND p) :: u32) = 0"
    then have "(ucast (ucast (x AND p) :: u32) :: u8) = ucast (0 :: u32)"
      by simp
    then show "x AND p = 0"
      by (simp add: ucast_up_ucast_id is_up)
  next
    assume "x AND p = 0"
    then show "(ucast (x AND p) :: u32) = 0"
      by simp
  qed
  ultimately show ?thesis by simp
qed

lemma HALL_levels_distinct: "HALL_HI \<noteq> HALL_LO"
  by (simp add: HALL_HI_def HALL_LO_def)

lemma Init_HALL_IO_calls:
  "calls (Init_HALL_IO b lvl s) = calls s @
     [Call_GPIOPinTypeGPIOInput GPIO_PORTB_BASE (HALL_SOFTKILL_PIN b),
      Call_GPIOPinTypeGPIOInput GPIO_PORTB_BASE (HALL_GO_PIN b),
      Call_GPIOPinTypeGPIOInput GPIO_PORTB_BASE (HALL_ON_OFF_PIN b),
      Call_GPIOPadConfigSet GPIO_PORTB_BASE (HALL_SOFTKILL_PIN b) GPIO_STRENGTH_2MA
        (fst (Init_HALL_IO_switch b lvl)),
      Call_GPIOPadConfigSet GPIO_PORTB_BASE (HALL_GO_PIN b) GPIO_STRENGTH_2MA
        (fst (Init_HALL_IO_switch b lvl)),
      Call_GPIOPadConfigSet GPIO_PORTB_BASE (HALL_ON_OFF_PIN b) GPIO_STRENGTH_2MA
        (fst (Init_HALL_IO_switch b lvl))]"
  by (simp add: Init_HALL_IO_def seq_Nil seq_Cons GPIOPinTypeGPIOInput_def
      GPIOPadConfigSet_def issue_simps split: prod.split)

lemma Init_HALL_IO_portb: "portb_in (Init_HALL_IO b lvl s) = portb_in s"
  by (simp add: Init_HALL_IO_def seq_Nil seq_Cons GPIOPinTypeGPIOInput_def
      GPIOPadConfigSet_def issue_simps split: prod.split)

lemma linear_ticks_mono:
  assumes "r \<le> t" and "t \<le> f" and "x \<le> y"
  shows "linear_ticks r t f x \<le> linear_ticks r t f y"
proof -
  have up: "0 \<le> real f - real t" and down: "0 \<le> real t - real r"
    using assms by simp_all
  consider "0 \<le> x" | "x < 0" "0 \<le> y" | "x < 0" "y < 0"
    by linarith
  then have "(if 0 \<le> x then real t + x * (real f - real t) else real t + x * (real t - real r))
      \<le> (if 0 \<le> y then real t + y * (real f - real t) else real t + y * (real t - real r))"
  proof cases
    case 1
    then have "0 \<le> y" using assms(3) by simp
    moreover have "x * (real f - real t) \<le> y * (real f - real t)"
      using assms(3) up by (rule mult_right_mono)
    ultimately show ?thesis using 1 by simp
  next
    case 2
    have "x * (real t - real r) \<le> 0"
      using 2(1) down by (simp add: mult_le_0_iff)
    moreover have "0 \<le> y * (real f - real t)"
      using 2(2) up by simp
    ultimately show ?thesis using 2 by simp
  next
    case 3
    have "x * (real t - real r) \<le> y * (real t - real r)"
      using assms(3) down by (rule mult_right_mono)
    then show ?thesis using 3 by simp
  qed
  then have "\<lfloor>if 0 \<le> x then real t + x * (real f - real t) else real t + x * (real t - real r)\<rfloor>
      \<le> \<lfloor>if 0 \<le> y then real t + y * (real f - real t) else real t + y * (real t - real r)\<rfloor>"
    by (rule floor_mono)
  then show ?thesis
    by (simp add: linear_ticks_def split: if_splits)
qed

lemma linear_ticks_zero: "linear_ticks r t f 0 = t"
  by (simp add: linear_ticks_def)

lemma linear_ticks_one: "linear_ticks r t f 1 = f"
  by (simp add: linear_ticks_def)

lemma clamp_speed_mono: "x \<le> y \<Longrightarrow> clamp_speed x \<le> clamp_speed y"
  by (simp add: clamp_speed_def max_def min_def)

lemma clamp_speed_le_one: "clamp_speed x \<le> 1"
  by (simp add: clamp_speed_def)

lemma MIL_BR_linear_per_unat:
  assumes "PWM_FULL_REV_PER b base gen \<le> PWM_STOP_PER b base gen"
    and "PWM_STOP_PER b base gen \<le> PWM_FULL_FWD_PER b base gen"
  shows "unat (MIL_BR_linear_per b speed base gen) =
         linear_ticks (unat (PWM_FULL_REV_PER b base gen)) (unat (PWM_STOP_PER b base gen))
           (unat (PWM_FULL_FWD_PER b base gen)) (clamp_speed speed)"
proof -
  have "linear_ticks (unat (PWM_FULL_REV_PER b base gen)) (unat (PWM_STOP_PER b base gen))
           (unat (PWM_FULL_FWD_PER b base gen)) (clamp_speed speed)
        \<le> linear_ticks (unat (PWM_FULL_REV_PER b base gen)) (unat (PWM_STOP_PER b base gen))
           (unat (PWM_FULL_FWD_PER b base gen)) 1"
    using assms by (intro linear_ticks_mono clamp_speed_le_one) (simp_all add: word_le_nat_alt)
  then have "linear_ticks (unat (PWM_FULL_REV_PER b base gen)) (unat (PWM_STOP_PER b base gen))
           (unat (PWM_FULL_FWD_PER b base gen)) (clamp_speed speed)
        \<le> unat (PWM_FULL_FWD_PER b base gen)"
    by (simp add: linear_ticks_one)
  then show ?thesis
    unfolding MIL_BR_linear_per_def by (rule le_unat_uoi)
qed

section \<open>The hard kill\<close>

text \<open>
  Claim C1, as the code has it. From any state, \<open>TKB_HardKill\<close> issues, in this order:
  the eight stop pulses, the thruster power cut, the SoftKilled frame, the HardKilled
  frame, five one-second delays and the main power cut. Main and thruster power are off
  afterwards, which is the hard-killed state. The statement is about the calls other
  than a switch-off of the PWM output, on which it says nothing.
\<close>

theorem hard_kill_sequence:
  "filter (\<lambda>c. c \<noteq> Call_PWMOutputState False) (issued s (TKB_HardKill b s)) =
     stop_all_calls b @
     [Call_KILL_THRUSTERS,
      tx_frame (TKB_CAN_BASE b) (TKB_CANID b) Soft_Killed C_KILL_LEN,
      tx_frame (TKB_CAN_BASE b) (TKB_CANID b) Hard_Killed C_KILL_LEN,
      Call_SEC_1_DELAY, Call_SEC_1_DELAY, Call_SEC_1_DELAY, Call_SEC_1_DELAY, Call_SEC_1_DELAY,
      Call_KILL_MAIN] \<and>
   main_power (TKB_HardKill b s) = False \<and>
   thruster_power (TKB_HardKill b s) = False \<and>
   kill_state_of (TKB_HardKill b s) = HardKilled"
  by (simp add: issued_append [OF TKB_HardKill_calls] TKB_HardKill_flags kill_state_of_def
      stop_all_no_disable tx_frame_def)

text \<open>
  The order claim C1 gives (HardKilled frame last, after the delay and the main power
  cut) fails at power-up on the sample board: after the eight stop pulses come the thruster
  power cut and both frames, then the five delays, and the last call is the main power
  cut, not the HardKilled frame.
\<close>

theorem hard_kill_order_counterexample:
  "drop 8 (issued hw_boot (TKB_HardKill sample_board hw_boot)) =
     [Call_KILL_THRUSTERS,
      tx_frame (TKB_CAN_BASE sample_board) (TKB_CANID sample_board) Soft_Killed C_KILL_LEN,
      tx_frame (TKB_CAN_BASE sample_board) (TKB_CANID sample_board) Hard_Killed C_KILL_LEN,
      Call_SEC_1_DELAY, Call_SEC_1_DELAY, Call_SEC_1_DELAY, Call_SEC_1_DELAY, Call_SEC_1_DELAY,
      Call_KILL_MAIN] \<and>
   last (issued hw_boot (TKB_HardKill sample_board hw_boot)) = Call_KILL_MAIN \<and>
   last (issued hw_boot (TKB_HardKill sample_board hw_boot)) \<noteq>
     tx_frame (TKB_CAN_BASE sample_board) (TKB_CANID sample_board) Hard_Killed C_KILL_LEN"
  by (simp add: issued_append [OF TKB_HardKill_calls] stop_all_calls_def tx_frame_def)

section \<open>The soft kill\<close>

text \<open>
  Claim C2 at a running board (the sample board after \<open>TKB_UnKill\<close> from power-up): the
  PWM output is enabled before \<open>TKB_SoftKill\<close> and still enabled after it, and no call
  of the soft kill switches it off.
\<close>

theorem soft_kill_leaves_pwm_output_enabled:
  "pwm_out_en (TKB_UnKill sample_board hw_boot) \<and>
   pwm_out_en (TKB_SoftKill sample_board (TKB_UnKill sample_board hw_boot)) \<and>
   filter (\<lambda>c. c = Call_PWMOutputState False)
     (issued (TKB_UnKill sample_board hw_boot)
        (TKB_SoftKill sample_board (TKB_UnKill sample_board hw_boot))) = [] \<and>
   issued (TKB_UnKill sample_board hw_boot)
     (TKB_SoftKill sample_board (TKB_UnKill sample_board hw_boot)) =
     stop_all_calls sample_board @
     [Call_KILL_THRUSTERS,
      tx_frame (TKB_CAN_BASE sample_board) (TKB_CANID sample_board) Soft_Killed C_KILL_LEN]"
  by (simp add: issued_append [OF TKB_SoftKill_calls] TKB_SoftKill_flags TKB_UnKill_flags
      stop_all_calls_def stop_pulse_def tx_frame_def)

section \<open>Hall sensors\<close>

text \<open>
  Claim C3, as the code has it. Each check function returns \<open>HALL_HI\<close> exactly when the
  raw level of its pin is high, whatever activation level \<open>Init_HALL_IO\<close> was given.
  So a High result means "magnet present" under an active-high configuration and
  "magnet absent" under the active-low one.
\<close>

theorem hall_check_raw_level:
  "(HALL_CheckGo b s = HALL_HI) = (portb_in s AND HALL_GO_PIN b \<noteq> 0) \<and>
   (HALL_CheckSoftKill b s = HALL_HI) = (portb_in s AND HALL_SOFTKILL_PIN b \<noteq> 0) \<and>
   (HALL_Check_ON_OFF b s = HALL_HI) = (portb_in s AND HALL_ON_OFF_PIN b \<noteq> 0) \<and>
   HALL_CheckGo b (Init_HALL_IO b lvl s) = HALL_CheckGo b s \<and>
   HALL_CheckSoftKill b (Init_HALL_IO b lvl s) = HALL_CheckSoftKill b s \<and>
   HALL_Check_ON_OFF b (Init_HALL_IO b lvl s) = HALL_Check_ON_OFF b s \<and>
   (HALL_CheckGo b (Init_HALL_IO b lvl s) = HALL_HI) =
     (if lvl = HALL_ACT_LO b
      then \<not> magnet_present b lvl (portb_in s AND HALL_GO_PIN b \<noteq> 0)
      else magnet_present b lvl (portb_in s AND HALL_GO_PIN b \<noteq> 0)) \<and>
   (HALL_CheckSoftKill b (Init_HALL_IO b lvl s) = HALL_HI) =
     (if lvl = HALL_ACT_LO b
      then \<not> magnet_present b lvl (portb_in s AND HALL_SOFTKILL_PIN b \<noteq> 0)
      else magnet_present b lvl (portb_in s AND HALL_SOFTKILL_PIN b \<noteq> 0)) \<and>
   (HALL_Check_ON_OFF b (Init_HALL_IO b lvl s) = HALL_HI) =
     (if lvl = HALL_ACT_LO b
      then \<not> magnet_present b lvl (portb_in s AND HALL_ON_OFF_PIN b \<noteq> 0)
      else magnet_present b lvl (portb_in s AND HALL_ON_OFF_PIN b \<noteq> 0))"
  using HALL_levels_distinct
  by (simp add: HALL_CheckGo_def HALL_CheckSoftKill_def HALL_Check_ON_OFF_def GPIOPinRead_def
      hall_pin_test Init_HALL_IO_portb magnet_present_def)

text \<open>
  Claim C3 as stated fails on the sample board initialised active-low with all pins
  low: the go magnet is present under that polarity, and \<open>HALL_CheckGo\<close> returns
  \<open>HALL_LO\<close>, not \<open>HALL_HI\<close>.
\<close>

theorem hall_check_polarity_counterexample:
  "magnet_present sample_board (HALL_ACT_LO sample_board)
     (portb_in (Init_HALL_IO sample_board (HALL_ACT_LO sample_board) hw_boot)
        AND HALL_GO_PIN sample_board \<noteq> 0) \<and>
   HALL_CheckGo sample_board (Init_HALL_IO sample_board (HALL_ACT_LO sample_board) hw_boot)
     = HALL_LO \<and>
   HALL_CheckGo sample_board (Init_HALL_IO sample_board (HALL_ACT_LO sample_board) hw_boot)
     \<noteq> HALL_HI"
  using HALL_levels_distinct
  by (simp add: HALL_CheckGo_def GPIOPinRead_def Init_HALL_IO_portb magnet_present_def
      hw_boot_def)

text \<open>
  Claim C4 on the code. \<open>Init_HALL_IO\<close> makes the three pins inputs and sets their pad
  configuration, and nothing else: no call sets an interrupt type, registers a handler
  or enables an interrupt for the on/off pin, for any activation level.
\<close>

theorem hall_init_attaches_no_interrupt:
  "issued s (Init_HALL_IO b lvl s) =
     [Call_GPIOPinTypeGPIOInput GPIO_PORTB_BASE (HALL_SOFTKILL_PIN b),
      Call_GPIOPinTypeGPIOInput GPIO_PORTB_BASE (HALL_GO_PIN b),
      Call_GPIOPinTypeGPIOInput GPIO_PORTB_BASE (HALL_ON_OFF_PIN b),
      Call_GPIOPadConfigSet GPIO_PORTB_BASE (HALL_SOFTKILL_PIN b) GPIO_STRENGTH_2MA
        (fst (Init_HALL_IO_switch b lvl)),
      Call_GPIOPadConfigSet GPIO_PORTB_BASE (HALL_GO_PIN b) GPIO_STRENGTH_2MA
        (fst (Init_HALL_IO_switch b lvl)),
      Call_GPIOPadConfigSet GPIO_PORTB_BASE (HALL_ON_OFF_PIN b) GPIO_STRENGTH_2MA
        (fst (Init_HALL_IO_switch b lvl))] \<and>
   filter is_int_call (issued s (Init_HALL_IO b lvl s)) = []"
  by (simp add: issued_append [OF Init_HALL_IO_calls])

text \<open>
  Claim C10. An activation level that is neither \<open>HALL_ACT_LO\<close> nor \<open>HALL_ACT_HI\<close>
  selects the weak pull-down and the falling edge, the values of the \<open>HALL_ACT_HI\<close>
  case, and \<open>Init_HALL_IO\<close> then does exactly what it does for \<open>HALL_ACT_HI\<close>: it
  configures the three pads with the weak pull-down and reports nothing.
\<close>

theorem hall_init_default_is_active_high:
  assumes "lvl \<noteq> HALL_ACT_LO b" and "lvl \<noteq> HALL_ACT_HI b"
    and "HALL_ACT_LO b \<noteq> HALL_ACT_HI b"
  shows "Init_HALL_IO_switch b lvl = (GPIO_PIN_TYPE_STD_WPD, GPIO_FALLING_EDGE) \<and>
         Init_HALL_IO_switch b lvl = Init_HALL_IO_switch b (HALL_ACT_HI b) \<and>
         Init_HALL_IO b lvl s = Init_HALL_IO b (HALL_ACT_HI b) s \<and>
         issued s (Init_HALL_IO b lvl s) =
           [Call_GPIOPinTypeGPIOInput GPIO_PORTB_BASE (HALL_SOFTKILL_PIN b),
            Call_GPIOPinTypeGPIOInput GPIO_PORTB_BASE (HALL_GO_PIN b),
            Call_GPIOPinTypeGPIOInput GPIO_PORTB_BASE (HALL_ON_OFF_PIN b),
            Call_GPIOPadConfigSet GPIO_PORTB_BASE (HALL_SOFTKILL_PIN b) GPIO_STRENGTH_2MA
              GPIO_PIN_TYPE_STD_WPD,
            Call_GPIOPadConfigSet GPIO_PORTB_BASE (HALL_GO_PIN b) GPIO_STRENGTH_2MA
              GPIO_PIN_TYPE_STD_WPD,
            Call_GPIOPadConfigSet GPIO_PORTB_BASE (HALL_ON_OFF_PIN b) GPIO_STRENGTH_2MA
              GPIO_PIN_TYPE_STD_WPD]"
proof -
  have sw: "Init_HALL_IO_switch b lvl = (GPIO_PIN_TYPE_STD_WPD, GPIO_FALLING_EDGE)"
    using assms by (simp add: Init_HALL_IO_switch_def)
  have hi: "Init_HALL_IO_switch b (HALL_ACT_HI b) = (GPIO_PIN_TYPE_STD_WPD, GPIO_FALLING_EDGE)"
    using assms by (simp add: Init_HALL_IO_switch_def)
  have same: "Init_HALL_IO b lvl s = Init_HALL_IO b (HALL_ACT_HI b) s"
    by (simp add: Init_HALL_IO_def sw hi)
  show ?thesis
    by (simp add: sw hi same [symmetric] issued_append [OF Init_HALL_IO_calls])
qed

theorem hall_init_default_is_active_high_witness:
  "(7 :: u8) \<noteq> HALL_ACT_LO sample_board \<and> (7 :: u8) \<noteq> HALL_ACT_HI sample_board \<and>
   HALL_ACT_LO sample_board \<noteq> HALL_ACT_HI sample_board \<and>
   Init_HALL_IO_switch sample_board 7 = (GPIO_PIN_TYPE_STD_WPD, GPIO_FALLING_EDGE) \<and>
   Init_HALL_IO sample_board 7 hw_boot =
     Init_HALL_IO sample_board (HALL_ACT_HI sample_board) hw_boot"
proof -
  have h1: "(7 :: u8) \<noteq> HALL_ACT_LO sample_board" by (simp add: sample_board_def)
  have h2: "(7 :: u8) \<noteq> HALL_ACT_HI sample_board" by (simp add: sample_board_def)
  have h3: "HALL_ACT_LO sample_board \<noteq> HALL_ACT_HI sample_board"
    by (simp add: sample_board_def)
  show ?thesis
    using hall_init_default_is_active_high [OF h1 h2 h3, of hw_boot] h1 h2 h3 by simp
qed

section \<open>Inbound message classification\<close>

text \<open>
  Claim C6. For a message that contains the type-tag index, \<open>TKB_Check_KillMsg\<close> returns
  1 exactly when the byte at that index is the kill start byte and 0 otherwise,
  \<open>TKB_Check_ThrustMsg\<close> likewise for the thrust start byte, and two messages with the
  same type-tag byte are classified alike, whatever their other bytes.
\<close>

theorem msg_classification:
  assumes "MSG_TYPE_IDX b < length pMsg"
    and "length pMsg' = length pMsg"
    and "pMsg' ! MSG_TYPE_IDX b = pMsg ! MSG_TYPE_IDX b"
  shows "(TKB_Check_KillMsg b pMsg = 1) = (pMsg ! MSG_TYPE_IDX b = KILL_START_BYTE b) \<and>
         (TKB_Check_KillMsg b pMsg = 0) = (pMsg ! MSG_TYPE_IDX b \<noteq> KILL_START_BYTE b) \<and>
         (TKB_Check_ThrustMsg b pMsg = 1) = (pMsg ! MSG_TYPE_IDX b = THRUST_START_BYTE b) \<and>
         (TKB_Check_ThrustMsg b pMsg = 0) = (pMsg ! MSG_TYPE_IDX b \<noteq> THRUST_START_BYTE b) \<and>
         TKB_Check_KillMsg b pMsg' = TKB_Check_KillMsg b pMsg \<and>
         TKB_Check_ThrustMsg b pMsg' = TKB_Check_ThrustMsg b pMsg"
  using assms by (simp add: TKB_Check_KillMsg_def TKB_Check_ThrustMsg_def)

theorem msg_classification_witness:
  "MSG_TYPE_IDX sample_board < length [0x4B, 0x43, 0x48, 0x41, 0 :: u8] \<and>
   TKB_Check_KillMsg sample_board [0x4B, 0x43, 0x48, 0x41, 0] = 1 \<and>
   TKB_Check_ThrustMsg sample_board [0x4B, 0x43, 0x48, 0x41, 0] = 0 \<and>
   TKB_Check_KillMsg sample_board [0x4B, 0x43, 0x53, 0x55, 0] = 1"
proof -
  have h1: "MSG_TYPE_IDX sample_board < length [0x4B, 0x43, 0x48, 0x41, 0 :: u8]"
    by (simp add: sample_board_def)
  have h2: "length [0x4B, 0x43, 0x53, 0x55, 0 :: u8] = length [0x4B, 0x43, 0x48, 0x41, 0 :: u8]"
    by simp
  have h3: "[0x4B, 0x43, 0x53, 0x55, 0 :: u8] ! MSG_TYPE_IDX sample_board =
            [0x4B, 0x43, 0x48, 0x41, 0 :: u8] ! MSG_TYPE_IDX sample_board"
    by (simp add: sample_board_def)
  show ?thesis
    using msg_classification [OF h1 h2 h3] h1 by (simp add: sample_board_def)
qed

section \<open>Thrust mapping\<close>

text \<open>
  Claim C7. With the generator's full-reverse, stop and full-forward widths in that
  order, the pulse width is monotonic non-decreasing in the speed on \<open>[-1, 1]\<close>, speed 0
  maps to the stop width exactly, and the width \<open>TKB_PWM_SetSpeed\<close> writes is a function
  of the board constants and the thruster data alone, the same in every hardware state.
\<close>

theorem thrust_mapping_monotone:
  assumes "PWM_FULL_REV_PER b base gen \<le> PWM_STOP_PER b base gen"
    and "PWM_STOP_PER b base gen \<le> PWM_FULL_FWD_PER b base gen"
    and "- 1 \<le> s1" and "s1 \<le> s2" and "s2 \<le> 1"
  shows "MIL_BR_linear_per b s1 base gen \<le> MIL_BR_linear_per b s2 base gen \<and>
         MIL_BR_linear_per b 0 base gen = PWM_STOP_PER b base gen \<and>
         issued s (TKB_PWM_SetSpeed b thruster s) =
           [Call_PWMPulseWidthSet (TKB_PWM_BASE b) (pwm_out thruster)
              (MIL_BR_linear_per b (speed_float thruster) (TKB_PWM_BASE b) (pwm_gen thruster))] \<and>
         issued s' (TKB_PWM_SetSpeed b thruster s') = issued s (TKB_PWM_SetSpeed b thruster s)"
proof -
  have mono: "MIL_BR_linear_per b s1 base gen \<le> MIL_BR_linear_per b s2 base gen"
    unfolding word_le_nat_alt MIL_BR_linear_per_unat [OF assms(1,2)]
    using assms by (intro linear_ticks_mono clamp_speed_mono) (simp_all add: word_le_nat_alt)
  have zero: "MIL_BR_linear_per b 0 base gen = PWM_STOP_PER b base gen"
    by (simp add: MIL_BR_linear_per_def clamp_speed_def linear_ticks_zero)
  have one: "calls (TKB_PWM_SetSpeed b thruster u) = calls u @
      [Call_PWMPulseWidthSet (TKB_PWM_BASE b) (pwm_out thruster)
         (MIL_BR_linear_per b (speed_float thruster) (TKB_PWM_BASE b) (pwm_gen thruster))]" for u
    by (simp add: TKB_PWM_SetSpeed_def PWMPulseWidthSet_def issue_def)
  show ?thesis
    by (simp add: mono zero issued_append [OF one])
qed

theorem thrust_mapping_monotone_witness:
  "PWM_FULL_REV_PER sample_board 0x40028000 0x80 \<le> PWM_STOP_PER sample_board 0x40028000 0x80 \<and>
   PWM_STOP_PER sample_board 0x40028000 0x80 \<le> PWM_FULL_FWD_PER sample_board 0x40028000 0x80 \<and>
   MIL_BR_linear_per sample_board (- 1 / 2) 0x40028000 0x80
     \<le> MIL_BR_linear_per sample_board (1 / 2) 0x40028000 0x80 \<and>
   MIL_BR_linear_per sample_board 0 0x40028000 0x80 = 1500"
proof -
  have h1: "PWM_FULL_REV_PER sample_board 0x40028000 0x80 \<le> PWM_STOP_PER sample_board 0x40028000 0x80"
    by (simp add: sample_board_def)
  have h2: "PWM_STOP_PER sample_board 0x40028000 0x80 \<le> PWM_FULL_FWD_PER sample_board 0x40028000 0x80"
    by (simp add: sample_board_def)
  have h3: "- 1 \<le> (- 1 / 2 :: real)" and h4: "(- 1 / 2 :: real) \<le> 1 / 2" and h5: "(1 / 2 :: real) \<le> 1"
    by simp_all
  have "PWM_STOP_PER sample_board 0x40028000 0x80 = 1500"
    by (simp add: sample_board_def)
  then show ?thesis
    using thrust_mapping_monotone [OF h1 h2 h3 h4 h5] h1 h2 by simp
qed

section \<open>The unkill\<close>

text \<open>
  Claim C8. \<open>TKB_UnKill\<close> powers main, powers the thrusters, runs \<open>TKB_Init_ESC\<close> (which
  powers the thrusters again, waits two seconds and applies the stop pulse width to the
  eight outputs) and enables the PWM output last; main power, thruster power and PWM
  output are on afterwards, which is the running state.
\<close>

theorem unkill_sequence:
  "issued s (TKB_UnKill b s) =
     [Call_POWER_MAIN, Call_POWER_THRUSTERS,
      Call_POWER_THRUSTERS, Call_SEC_1_DELAY, Call_SEC_1_DELAY] @
     stop_all_calls b @ [Call_PWMOutputState True] \<and>
   main_power (TKB_UnKill b s) \<and> thruster_power (TKB_UnKill b s) \<and>
   pwm_out_en (TKB_UnKill b s) \<and>
   kill_state_of (TKB_UnKill b s) = Running"
  by (simp add: issued_append [OF TKB_UnKill_calls] TKB_UnKill_flags kill_state_of_def)




section \<open>CAN transmission\<close>

text \<open>
  Claim C9. \<open>MIL_CANSimpleTX\<close> issues one \<open>CANMessageSet\<close> on message object 0 with
  flags 0, the caller's identifier, length and payload; the two frames of a hard kill
  therefore both go through message object 0.
\<close>

theorem simple_tx_uses_object_zero:
  "issued s (MIL_CANSimpleTX canid pMsg MsgLen base s) =
     [Call_CANMessageSet base 0
        \<lparr>ui32MsgID = canid, ui32MsgIDMask = None, ui32Flags = 0,
         ui32MsgLen = ucast MsgLen, pui8MsgData = pMsg\<rparr> MSG_OBJ_TYPE_TX] \<and>
   unat (ucast MsgLen :: u32) = unat MsgLen \<and>
   can_obj_ids (issued s (MIL_CANSimpleTX canid pMsg MsgLen base s)) = [0] \<and>
   can_obj_ids (issued s (TKB_HardKill b s)) = [0, 0]"
  by (simp add: issued_append [OF MIL_CANSimpleTX_calls] issued_append [OF TKB_HardKill_calls]
      stop_all_calls_def stop_pulse_def tx_frame_def unat_ucast_len)

end
